theory Spec2Isabelle
  imports Complex_Main "HOL-Library.Char_ord" "HOL-Library.List_Lexorder"
begin

section \<open>Conventions of the embedding\<close>

text \<open>
  The options service (\<^verbatim>\<open>OptionsDataService\<close>) and the strategy analyzer
  (\<^verbatim>\<open>LeapsAnalyzer\<close>) are embedded function by function, under the names of the source.

  \<^item> A JavaScript number is a \<^typ>\<open>real\<close>: \<^verbatim>\<open>Math.sqrt\<close>, \<^verbatim>\<open>Math.exp\<close>, \<^verbatim>\<open>Math.log\<close>,
    \<^verbatim>\<open>Math.abs\<close>, \<^verbatim>\<open>Math.max\<close>, \<^verbatim>\<open>Math.floor\<close> and \<^verbatim>\<open>Math.ceil\<close> are the real functions
    \<^const>\<open>sqrt\<close>, \<^const>\<open>exp\<close>, \<^const>\<open>ln\<close>, \<^const>\<open>abs\<close>, \<^const>\<open>max\<close>, \<^const>\<open>floor\<close> and
    \<^const>\<open>ceiling\<close>. Rounding and overflow of IEEE doubles are outside the model, and
    so is \<^verbatim>\<open>NaN\<close>, but where a branch of the source is decided by it: there the model
    names the case.
  \<^item> Every call of \<^verbatim>\<open>Math.random()\<close> reads the next element of an injected sequence of
    draws, each meant to lie in \<open>[0, 1)\<close>.
  \<^item> A \<^verbatim>\<open>Date\<close> is its time value, an \<^typ>\<open>int\<close> of milliseconds since the epoch;
    \<^verbatim>\<open>new Date()\<close> is the parameter \<open>now\<close>.
  \<^item> A thrown exception is the left summand of the result.
\<close>

datatype option_type = Call | Put

datatype moneyness_label = OTM | ITM | ATM

datatype max_gain = Unlimited | Gain real


text \<open>The four draws of one call of \<^verbatim>\<open>generateOptionData\<close>, in the order they are read.\<close>

record draws =
  u_volatility :: real
  u_spread :: real
  u_volume :: real
  u_openInterest :: real


section \<open>The normal distribution helper\<close>

definition erf :: "real \<Rightarrow> real" where
  "erf x0 =
     (let a1 = 0.254829592;
          a2 = - 0.284496736;
          a3 = 1.421413741;
          a4 = - 1.453152027;
          a5 = 1.061405429;
          p = 0.3275911;
          sign = (if x0 \<ge> 0 then 1 else - 1);
          x = \<bar>x0\<bar>;
          t = 1.0 / (1.0 + p * x);
          y = 1.0 - (((((a5 * t + a4) * t) + a3) * t + a2) * t + a1) * t * exp (- x * x)
      in sign * y)"

definition normalCDF :: "real \<Rightarrow> real" where
  "normalCDF x = 0.5 * (1 + erf (x / sqrt 2))"

section \<open>Pricing and the Greeks\<close>

definition calculateTimeValue :: "real \<Rightarrow> real \<Rightarrow> real \<Rightarrow> real" where
  "calculateTimeValue moneyness timeToExpiry volatility =
     (let atm = \<bar>moneyness - 1\<bar>;
          timeFactor = sqrt timeToExpiry;
          volFactor = volatility
      in (0.4 * timeFactor * volFactor * 100) * exp (- atm * 2))"

definition calculateDelta :: "option_type \<Rightarrow> real \<Rightarrow> real \<Rightarrow> real \<Rightarrow> real" where
  "calculateDelta ty moneyness timeToExpiry volatility =
     (let d1 = (ln (1 / moneyness) + 0.5 * volatility * volatility * timeToExpiry) /
               (volatility * sqrt timeToExpiry);
          delta = normalCDF d1
      in if ty = Call then delta else delta - 1)"

definition calculateTheta :: "real \<Rightarrow> real \<Rightarrow> real" where
  "calculateTheta timeValue daysToExpiry = - timeValue / daysToExpiry"

definition calculateGamma :: "real \<Rightarrow> real \<Rightarrow> real \<Rightarrow> real" where
  "calculateGamma moneyness timeToExpiry volatility =
     exp (- ((ln moneyness)\<^sup>2) / 2) / (volatility * sqrt (timeToExpiry * 2 * pi))"

definition calculateVega :: "real \<Rightarrow> real \<Rightarrow> real" where
  "calculateVega timeToExpiry volatility = sqrt timeToExpiry * 0.1"

definition calculateAnnualizedReturn :: "real \<Rightarrow> real \<Rightarrow> real \<Rightarrow> real" where
  "calculateAnnualizedReturn optionPrice stockPrice timeToExpiry =
     (let costBasis = optionPrice / stockPrice
      in (1 / costBasis - 1) / timeToExpiry)"

record option_quote =
  bid :: real
  ask :: real
  midPrice :: real
  volume :: int
  openInterest :: int
  impliedVolatility :: real
  delta :: real
  gamma :: real
  theta :: real
  vega :: real
  intrinsicValue :: real
  timeValue :: real
  moneyness :: moneyness_label
  annualizedReturn :: real
  breakeven :: real
  maxLoss :: real
  maxGain :: max_gain

text \<open>
  \<^verbatim>\<open>generateOptionData(type, strike, spotPrice, daysToExpiry)\<close>. The fields of the
  returned object are computed from the local constants of the source, which keep their
  names here with a \<open>0\<close> appended where a field of the quote has the same name.
\<close>

definition generateOptionData ::
  "option_type \<Rightarrow> real \<Rightarrow> real \<Rightarrow> real \<Rightarrow> draws \<Rightarrow> option_quote" where
  "generateOptionData ty strike spotPrice daysToExpiry rnd =
     (let timeToExpiry = daysToExpiry / 365;
          volatility = 0.25 + u_volatility rnd * 0.3;
          moneyness0 = strike / spotPrice;
          intrinsic = (if ty = Call then max (spotPrice - strike) 0
                       else max (strike - spotPrice) 0);
          timeValue0 = calculateTimeValue moneyness0 timeToExpiry volatility;
          price = intrinsic + timeValue0;
          delta0 = calculateDelta ty moneyness0 timeToExpiry volatility;
          theta0 = calculateTheta timeValue0 daysToExpiry;
          gamma0 = calculateGamma moneyness0 timeToExpiry volatility;
          vega0 = calculateVega timeToExpiry volatility;
          spread = price * (0.02 + u_spread rnd * 0.03);
          volume0 = \<lfloor>u_volume rnd * 1000 + 10\<rfloor>;
          openInterest0 = \<lfloor>u_openInterest rnd * 10000 + 100\<rfloor>
      in \<lparr>bid = max (price - spread / 2) 0.05,
          ask = price + spread / 2,
          midPrice = price,
          volume = volume0,
          openInterest = openInterest0,
          impliedVolatility = volatility,
          delta = \<bar>delta0\<bar>,
          gamma = gamma0,
          theta = theta0,
          vega = vega0,
          intrinsicValue = intrinsic,
          timeValue = timeValue0,
          moneyness = (if moneyness0 > 1 then OTM else if moneyness0 < 0.95 then ITM else ATM),
          annualizedReturn = calculateAnnualizedReturn price spotPrice timeToExpiry,
          breakeven = (if ty = Call then strike + price else strike - price),
          maxLoss = (if ty = Call then price else price),
          maxGain = (if ty = Call then Unlimited else Gain (strike - price))\<rparr>)"

section \<open>The strike ladder\<close>





section \<open>Raw upstream data and chain synthesis\<close>





record option_row =
  strike :: real
  call :: option_quote
  put :: option_quote

text \<open>
  The field \<open>expiration\<close> is the date itself (the source stores its ISO day string).
\<close>

record options_chain =
  expiration :: int
  daysToExpiry :: int
  totalStrikes :: nat
  atmStrike :: real
  options :: "option_row list"


section \<open>Selection of the LEAPS expirations\<close>




text \<open>
  Past the filter every date is valid; \<open>validDates\<close> reads the time values of a list of
  dates that has no invalid one in it.
\<close>

definition validDates :: "int option list \<Rightarrow> int list" where
  "validDates ds = concat (map (\<lambda>d. case d of None \<Rightarrow> [] | Some t \<Rightarrow> [t]) ds)"




section \<open>The strategy analyzer\<close>











section \<open>The liquidity mean as the specification words it\<close>





section \<open>Day strings whose order is the order of their dates\<close>



section \<open>The ladder as the specification words it\<close>






section \<open>Sample inputs\<close>


definition lowDraws :: draws where
  "lowDraws = \<lparr>u_volatility = 0, u_spread = 0, u_volume = 0, u_openInterest = 0\<rparr>"

definition pinnedDraws :: draws where
  "pinnedDraws = \<lparr>u_volatility = 1 / 6, u_spread = 0, u_volume = 0, u_openInterest = 0\<rparr>"
















section \<open>Properties of a single quote\<close>

lemma midPrice_generateOptionData:
  "midPrice (generateOptionData ty K S d rnd) =
     intrinsicValue (generateOptionData ty K S d rnd) + timeValue (generateOptionData ty K S d rnd)"
  by (simp add: generateOptionData_def Let_def)

lemma calculateTimeValue_eq:
  "calculateTimeValue m T v = 0.4 * sqrt T * v * 100 * exp (- \<bar>m - 1\<bar> * 2)"
  unfolding calculateTimeValue_def Let_def by (rule refl)

lemma timeValue_nonneg: "0 \<le> v \<Longrightarrow> 0 \<le> T \<Longrightarrow> 0 \<le> calculateTimeValue m T v"
  unfolding calculateTimeValue_eq by (intro mult_nonneg_nonneg) auto

lemma price_nonneg:
  "0 \<le> u_volatility rnd \<Longrightarrow> 0 \<le> d \<Longrightarrow> 0 \<le> midPrice (generateOptionData ty K S d rnd)"
  by (simp add: generateOptionData_def Let_def timeValue_nonneg add_nonneg_nonneg)

lemma exp_minus_8: "exp (- 8 :: real) \<le> 1 / 256"
proof -
  have "(2::real) \<le> exp 1" using exp_ge_add_one_self[of "1::real"] by simp
  then have "(2::real) ^ 8 \<le> exp 1 ^ 8" by (intro power_mono) auto
  also have "exp (1::real) ^ 8 = exp 8" using exp_of_nat_mult[of 8 "1::real"] by simp
  finally have "(256::real) \<le> exp 8" by simp
  then have "1 / exp (8::real) \<le> 1 / 256" by (intro divide_left_mono) auto
  then show ?thesis by (simp add: exp_minus inverse_eq_divide)
qed

text \<open>The call at the money on a stock of 100, a year out, at the lowest draws.\<close>

lemma atm_quote_values:
  "midPrice (generateOptionData Call 100 100 365 lowDraws) = 10"
  "bid (generateOptionData Call 100 100 365 lowDraws) = 9.9"
  by (simp_all add: generateOptionData_def Let_def calculateTimeValue_eq lowDraws_def)

text \<open>
  A stock at 0.50 has the one-strike ladder \<open>[2.5]\<close>; the call at that strike is worth
  \<open>10 * exp (- 8)\<close>, less than half a cent, and its bid is the floor of five cents.
\<close>

lemma penny_quote_values:
  "midPrice (generateOptionData Call 2.5 0.5 365 lowDraws) = 10 * exp (- 8)"
  "bid (generateOptionData Call 2.5 0.5 365 lowDraws) = 0.05"
  "impliedVolatility (generateOptionData Call 2.5 0.5 365 lowDraws) = 0.25"
  using exp_minus_8
  by (simp_all add: generateOptionData_def Let_def calculateTimeValue_eq lowDraws_def max_def)

text \<open>
  Claim C1, as the code has it. For a positive spot and strike, at least one day to expiry
  and draws in the unit interval (an implied volatility in \<open>[0.25, 0.55]\<close>, a spread
  fraction in \<open>[0.02, 0.05]\<close>), the bid is at least 0.05 and the mid price is at most the
  ask; the bid is at most the mid price exactly when the mid price is at least 0.05.
\<close>

theorem quote_bid_mid_ask:
  assumes "0 < S" and "0 < K" and "1 \<le> d"
    and "0 \<le> u_volatility rnd" and "u_volatility rnd \<le> 1"
    and "0 \<le> u_spread rnd" and "u_spread rnd \<le> 1"
  shows "0.05 \<le> bid (generateOptionData ty K S d rnd) \<and>
         midPrice (generateOptionData ty K S d rnd) \<le> ask (generateOptionData ty K S d rnd) \<and>
         (bid (generateOptionData ty K S d rnd) \<le> midPrice (generateOptionData ty K S d rnd)
            \<longleftrightarrow> 0.05 \<le> midPrice (generateOptionData ty K S d rnd))"
proof -
  define price where "price = midPrice (generateOptionData ty K S d rnd)"
  define f where "f = 0.02 + u_spread rnd * 0.03"
  have d0: "0 \<le> d" using assms(3) by simp
  have p0: "0 \<le> price" unfolding price_def using assms(4) d0 by (rule price_nonneg)
  have f0: "0 \<le> f" using assms(6) by (simp add: f_def)
  have s0: "0 \<le> price * f" using p0 f0 by simp
  have b: "bid (generateOptionData ty K S d rnd) = max (price - price * f / 2) 0.05"
    by (simp add: generateOptionData_def Let_def price_def f_def)
  have a: "ask (generateOptionData ty K S d rnd) = price + price * f / 2"
    by (simp add: generateOptionData_def Let_def price_def f_def)
  have "0.05 \<le> bid (generateOptionData ty K S d rnd)" by (simp add: b)
  moreover have "midPrice (generateOptionData ty K S d rnd) \<le> ask (generateOptionData ty K S d rnd)"
    using s0 by (simp add: a price_def[symmetric])
  moreover have "bid (generateOptionData ty K S d rnd) \<le> midPrice (generateOptionData ty K S d rnd)
      \<longleftrightarrow> 0.05 \<le> midPrice (generateOptionData ty K S d rnd)"
    using s0 by (simp add: b price_def[symmetric])
  ultimately show ?thesis by blast
qed

theorem quote_bid_mid_ask_witness:
  "(0::real) < 100 \<and> (1::real) \<le> 365 \<and>
   0 \<le> u_volatility lowDraws \<and> u_volatility lowDraws \<le> 1 \<and>
   0 \<le> u_spread lowDraws \<and> u_spread lowDraws \<le> 1 \<and>
   bid (generateOptionData Call 100 100 365 lowDraws) = 9.9 \<and>
   midPrice (generateOptionData Call 100 100 365 lowDraws) = 10 \<and>
   0.05 \<le> bid (generateOptionData Call 100 100 365 lowDraws) \<and>
   bid (generateOptionData Call 100 100 365 lowDraws)
     \<le> midPrice (generateOptionData Call 100 100 365 lowDraws) \<and>
   midPrice (generateOptionData Call 100 100 365 lowDraws)
     \<le> ask (generateOptionData Call 100 100 365 lowDraws)"
proof -
  have u: "0 \<le> u_volatility lowDraws" "u_volatility lowDraws \<le> 1"
    "0 \<le> u_spread lowDraws" "u_spread lowDraws \<le> 1"
    by (simp_all add: lowDraws_def)
  from quote_bid_mid_ask [of 100 100 365 lowDraws Call] u
  show ?thesis by (simp add: atm_quote_values)
qed

text \<open>
  Claim C1 as it is written fails for the call at strike 2.5 on a stock at 0.50, a year
  out: the inputs are in range, and the mid price is below the bid.
\<close>

theorem quote_bid_above_mid_counterexample:
  "(0::real) < 0.5 \<and> (0::real) < 2.5 \<and> (1::real) \<le> 365 \<and>
   impliedVolatility (generateOptionData Call 2.5 0.5 365 lowDraws) = 0.25 \<and>
   bid (generateOptionData Call 2.5 0.5 365 lowDraws) = 0.05 \<and>
   midPrice (generateOptionData Call 2.5 0.5 365 lowDraws)
     < bid (generateOptionData Call 2.5 0.5 365 lowDraws)"
proof -
  have "10 * exp (- 8 :: real) < 0.05" using exp_minus_8 by simp
  then show ?thesis unfolding penny_quote_values by simp
qed

lemma atm_call_example:
  assumes h: "impliedVolatility (generateOptionData Call 100 100 365 rnd) = 0.3"
  shows "timeValue (generateOptionData Call 100 100 365 rnd) = 12 \<and>
         intrinsicValue (generateOptionData Call 100 100 365 rnd) = 0 \<and>
         midPrice (generateOptionData Call 100 100 365 rnd) = 12"
proof -
  have tv: "timeValue (generateOptionData Call 100 100 365 rnd) =
      calculateTimeValue 1 1 (impliedVolatility (generateOptionData Call 100 100 365 rnd))"
    by (simp add: generateOptionData_def Let_def)
  have "calculateTimeValue 1 1 0.3 = 12" by (simp add: calculateTimeValue_eq)
  then have "timeValue (generateOptionData Call 100 100 365 rnd) = 12" unfolding tv h .
  moreover have "intrinsicValue (generateOptionData Call 100 100 365 rnd) = 0"
    by (simp add: generateOptionData_def Let_def)
  ultimately show ?thesis by (simp add: midPrice_generateOptionData)
qed

text \<open>
  Claim C2. For a positive spot and strike and at least one day to expiry, the mid price of
  the quote is its intrinsic value plus its time value; and the call at strike 100 on a
  stock of 100, 365 days out, with the implied volatility pinned to 0.30, has time value
  12, intrinsic value 0 and mid price 12.
\<close>

theorem quote_mid_is_intrinsic_plus_time:
  assumes "0 < S" and "0 < K" and "1 \<le> d"
  shows "midPrice (generateOptionData ty K S d rnd) =
           intrinsicValue (generateOptionData ty K S d rnd) + timeValue (generateOptionData ty K S d rnd) \<and>
         (ty = Call \<and> S = 100 \<and> K = 100 \<and> d = 365 \<and>
            impliedVolatility (generateOptionData ty K S d rnd) = 0.3 \<longrightarrow>
          timeValue (generateOptionData ty K S d rnd) = 12 \<and>
          intrinsicValue (generateOptionData ty K S d rnd) = 0 \<and>
          midPrice (generateOptionData ty K S d rnd) = 12)"
proof (intro conjI impI)
  show "midPrice (generateOptionData ty K S d rnd) =
      intrinsicValue (generateOptionData ty K S d rnd) + timeValue (generateOptionData ty K S d rnd)"
    by (rule midPrice_generateOptionData)
next
  assume h: "ty = Call \<and> S = 100 \<and> K = 100 \<and> d = 365 \<and>
      impliedVolatility (generateOptionData ty K S d rnd) = 0.3"
  then have "impliedVolatility (generateOptionData Call 100 100 365 rnd) = 0.3" by blast
  from atm_call_example[OF this] h
  show "timeValue (generateOptionData ty K S d rnd) = 12"
    and "intrinsicValue (generateOptionData ty K S d rnd) = 0"
    and "midPrice (generateOptionData ty K S d rnd) = 12" by simp_all
qed

theorem quote_mid_is_intrinsic_plus_time_witness:
  "(0::real) < 100 \<and> (1::real) \<le> 365 \<and>
   impliedVolatility (generateOptionData Call 100 100 365 pinnedDraws) = 0.3 \<and>
   timeValue (generateOptionData Call 100 100 365 pinnedDraws) = 12 \<and>
   intrinsicValue (generateOptionData Call 100 100 365 pinnedDraws) = 0 \<and>
   midPrice (generateOptionData Call 100 100 365 pinnedDraws) = 12"
proof -
  have iv: "impliedVolatility (generateOptionData Call 100 100 365 pinnedDraws) = 0.3"
    by (simp add: generateOptionData_def Let_def pinnedDraws_def)
  from quote_mid_is_intrinsic_plus_time [of 100 100 365 Call pinnedDraws] iv
  show ?thesis by simp
qed

section \<open>The normal distribution and delta\<close>

text \<open>
  The polynomial of the approximation, in the Horner form of the source, lies between 0
  and 2 on the unit interval (its true range there is narrower).
\<close>

lemma erf_poly_lower:
  fixes t :: real
  assumes "0 \<le> t" and "t \<le> 1"
  shows "0.2 \<le> ((((1.061405429 * t + - 1.453152027) * t) + 1.421413741) * t
                 + - 0.284496736) * t + 0.254829592"
proof -
  let ?u = "(1.061405429 * t + - 1.453152027) * t + 1.421413741"
  have sq1: "0 \<le> (t - 0.6845)\<^sup>2" by simp
  have u: "0.9 \<le> ?u" using sq1 assms by (simp add: power2_eq_square algebra_simps)
  have "0.9 * (t * t) \<le> ?u * (t * t)" using u by (intro mult_right_mono) auto
  moreover have sq2: "0 \<le> (t - 0.158)\<^sup>2" by simp
  ultimately show ?thesis using assms by (simp add: power2_eq_square algebra_simps)
qed

lemma erf_poly_upper:
  fixes t :: real
  assumes "0 \<le> t" and "t \<le> 1"
  shows "((((1.061405429 * t + - 1.453152027) * t) + 1.421413741) * t
            + - 0.284496736) * t + 0.254829592 \<le> 2"
proof -
  let ?u = "(1.061405429 * t + - 1.453152027) * t + 1.421413741"
  have "(1.061405429 * t + - 1.453152027) * t \<le> 0"
    using assms by (intro mult_nonpos_nonneg) auto
  then have u: "?u \<le> 1.5" by simp
  have "?u * t \<le> 1.5 * t" using u assms by (intro mult_right_mono) auto
  then have "?u * t + - 0.284496736 \<le> 1.5" using assms by simp
  then have "(?u * t + - 0.284496736) * t \<le> 1.5 * t" using assms by (intro mult_right_mono) auto
  then show ?thesis using assms by simp
qed

lemma erf_abs_le_1: "\<bar>erf x\<bar> \<le> 1"
proof -
  define t where "t = 1 / (1 + 0.3275911 * \<bar>x\<bar>)"
  define q where "q = ((((1.061405429 * t + - 1.453152027) * t) + 1.421413741) * t
                        + - 0.284496736) * t + 0.254829592"
  define e where "e = exp (- \<bar>x\<bar> * \<bar>x\<bar>)"
  have t0: "0 \<le> t" and t1: "t \<le> 1" by (simp_all add: t_def)
  have q0: "0 \<le> q" using erf_poly_lower[OF t0 t1] by (simp add: q_def)
  have q2: "q \<le> 2" using erf_poly_upper[OF t0 t1] by (simp add: q_def)
  have e0: "0 \<le> e" and e1: "e \<le> 1" by (simp_all add: e_def)
  have qt0: "0 \<le> q * t" using q0 t0 by simp
  have "q * t \<le> 2 * 1" using q2 t1 q0 t0 by (intro mult_mono) auto
  then have qt2: "q * t \<le> 2" by simp
  have p0: "0 \<le> q * t * e" using qt0 e0 by simp
  have "q * t * e \<le> 2 * 1" using qt2 e1 qt0 e0 by (intro mult_mono) auto
  then have p2: "q * t * e \<le> 2" by simp
  have "erf x = (if x \<ge> 0 then 1 else - 1) * (1 - q * t * e)"
    by (simp add: erf_def Let_def q_def t_def e_def)
  then show ?thesis using p0 p2 by (auto simp: abs_mult)
qed

lemma normalCDF_range: "0 \<le> normalCDF x \<and> normalCDF x \<le> 1"
  using erf_abs_le_1[of "x / sqrt 2"] by (simp add: normalCDF_def abs_le_iff)

lemma delta_range:
  "0 \<le> calculateDelta Call m T v \<and> calculateDelta Call m T v \<le> 1 \<and>
   - 1 \<le> calculateDelta Put m T v \<and> calculateDelta Put m T v \<le> 0"
  using normalCDF_range by (simp add: calculateDelta_def Let_def)

lemma delta_field:
  "delta (generateOptionData ty K S d rnd) =
     \<bar>calculateDelta ty (K / S) (d / 365) (impliedVolatility (generateOptionData ty K S d rnd))\<bar>"
  by (simp add: generateOptionData_def Let_def)

text \<open>
  Claim C3. For every real \<open>x\<close>, \<open>normalCDF x\<close> lies in \<open>[0, 1]\<close>; so for a positive spot
  and strike, at least one day to expiry and a volatility in \<open>[0.25, 0.55]\<close>,
  \<open>calculateDelta\<close> is in \<open>[0, 1]\<close> for a call and in \<open>[-1, 0]\<close> for a put, and the
  \<open>delta\<close> of the quote is the absolute value of it.
\<close>

theorem normalCDF_and_delta_ranges:
  "0 \<le> normalCDF x \<and> normalCDF x \<le> 1 \<and>
   (0 < S \<and> 0 < K \<and> 1 \<le> d \<and> 0.25 \<le> v \<and> v \<le> 0.55 \<longrightarrow>
      0 \<le> calculateDelta Call (K / S) (d / 365) v \<and> calculateDelta Call (K / S) (d / 365) v \<le> 1 \<and>
      - 1 \<le> calculateDelta Put (K / S) (d / 365) v \<and> calculateDelta Put (K / S) (d / 365) v \<le> 0) \<and>
   delta (generateOptionData ty K S d rnd) =
     \<bar>calculateDelta ty (K / S) (d / 365) (impliedVolatility (generateOptionData ty K S d rnd))\<bar>"
  using normalCDF_range[of x] delta_range[of "K / S" "d / 365" v] delta_field[of ty K S d rnd]
  by blast

theorem normalCDF_and_delta_ranges_witness:
  "0 \<le> normalCDF 0 \<and> normalCDF 0 \<le> 1 \<and> (0::real) < 100 \<and> (1::real) \<le> 365 \<and>
   (0.25::real) \<le> 0.3 \<and> (0.3::real) \<le> 0.55 \<and>
   0 \<le> calculateDelta Call (100 / 100) (365 / 365) 0.3 \<and>
   calculateDelta Call (100 / 100) (365 / 365) 0.3 \<le> 1 \<and>
   - 1 \<le> calculateDelta Put (100 / 100) (365 / 365) 0.3 \<and>
   calculateDelta Put (100 / 100) (365 / 365) 0.3 \<le> 0"
  using normalCDF_and_delta_ranges [of 0 100 100 365 "0.3" Put lowDraws]
  by simp

section \<open>Properties of the strike ladder\<close>






















section \<open>The at-the-money strike and chain synthesis\<close>











section \<open>The selected expirations\<close>



lemma length_validDates: "length (validDates ds) \<le> length ds"
  by (induction ds) (auto simp: validDates_def split: option.splits)















section \<open>Liquidity of a chain set\<close>












section \<open>The protective put\<close>





end
